theory Spec2Isabelle
  imports Complex_Main
begin

section \<open>Python values\<close>

text \<open>
  The configuration is read from YAML, so a field such as \<open>vm_id\<close> can hold any scalar.
  \<open>PFloat\<close> carries the exact value of a finite float; only its comparison with zero
  is ever used.  In Python \<open>bool\<close> is a subclass of \<open>int\<close>: \<open>isinstance(True, int)\<close>
  holds, \<open>False == 0\<close> holds and \<open>True == 0\<close> does not.
\<close>

datatype pyval = PNone | PBool bool | PInt int | PFloat rat | PStr string

fun isinstance_int :: "pyval \<Rightarrow> bool" where
  "isinstance_int (PInt i) = True"
| "isinstance_int (PBool b) = True"
| "isinstance_int v = False"

fun eq_zero :: "pyval \<Rightarrow> bool" where
  "eq_zero (PInt i) = (i = 0)"
| "eq_zero (PBool b) = (\<not> b)"
| "eq_zero (PFloat q) = (q = 0)"
| "eq_zero v = False"

fun is_None :: "pyval \<Rightarrow> bool" where
  "is_None PNone = True"
| "is_None v = False"

section \<open>pxvmflow/pxtool/px.py: the Proxmox client\<close>

text \<open>
  Exceptions that can come out of a proxmoxer call.  \<open>ResourceException\<close> is proxmoxer's
  error for an HTTP answer with an error status; everything else (a transport error of the
  HTTP library, proxmoxer's authentication error, ...) is \<open>OtherException\<close> with its class
  name and message.  \<open>ProxmoxException\<close> is the package's own exception.
\<close>

datatype px_exn =
    ResourceException (status_code: int) (status_message: string) (content: string)
  | ProxmoxException string
  | OtherException string string

text \<open>The keyword arguments \<open>build_client\<close> hands to \<open>proxmoxer.ProxmoxAPI\<close>.\<close>

record api_args =
  arg_host :: string
  arg_port :: int
  arg_user :: string
  arg_password :: string
  arg_verify_ssl :: bool
  arg_timeout :: nat

text \<open>
  The handle \<open>self._proxmox\<close>: \<open>self._proxmox(command).get()\<close> and
  \<open>self._proxmox(command).post()\<close> either return the decoded answer or raise.
\<close>

record 'r proxmox_api =
  api_get :: "string \<Rightarrow> px_exn + 'r"
  api_post :: "string \<Rightarrow> px_exn + 'r"

record 'r ProxmoxClient =
  p_host :: string
  p_port :: int
  p_user :: string
  p_realm :: string
  p_password :: string
  p_verify_ssl :: bool
  p_proxmox :: "'r proxmox_api"

text \<open>
  The constants of \<open>pxvmflow.consts.ProxmoxCommand\<close> are not part of the sources; the
  functions that format them into a command take them as a parameter.
\<close>

record ProxmoxCommand =
  cmd_START :: string
  cmd_SHUTDOWN :: string
  cmd_CURRENT :: string

text \<open>The first half of \<open>build_client\<close>: the login identity.\<close>

definition user_id :: "string \<Rightarrow> string \<Rightarrow> string" where
  "user_id user realm =
     (if CHR ''@'' \<in> set user then user else user @ ''@'' @ realm)"

definition client_args ::
  "string \<Rightarrow> int \<Rightarrow> string \<Rightarrow> string \<Rightarrow> string \<Rightarrow> bool \<Rightarrow> api_args" where
  "client_args host port user realm password verify_ssl =
     \<lparr>arg_host = host, arg_port = port, arg_user = user_id user realm,
      arg_password = password, arg_verify_ssl = verify_ssl, arg_timeout = 30\<rparr>"

text \<open>
  \<open>__init__\<close> stores its arguments and calls \<open>build_client\<close>, which calls the
  \<open>ProxmoxAPI\<close> constructor \<open>api\<close>; when that raises, no client exists.
\<close>

definition build_client ::
  "(api_args \<Rightarrow> px_exn + 'r proxmox_api) \<Rightarrow>
   string \<Rightarrow> int \<Rightarrow> string \<Rightarrow> string \<Rightarrow> string \<Rightarrow> bool \<Rightarrow> px_exn + 'r ProxmoxClient" where
  "build_client api host port user realm password verify_ssl =
     (case api (client_args host port user realm password verify_ssl) of
        Inl e \<Rightarrow> Inl e
      | Inr px \<Rightarrow>
          Inr \<lparr>p_host = host, p_port = port, p_user = user, p_realm = realm,
               p_password = password, p_verify_ssl = verify_ssl, p_proxmox = px\<rparr>)"

text \<open>\<open>except ResourceException as ex: raise ProxmoxException(ex.content)\<close>\<close>

fun convert :: "px_exn \<Rightarrow> px_exn" where
  "convert (ResourceException sc sm c) = ProxmoxException c"
| "convert e = e"

definition px_get :: "'r ProxmoxClient \<Rightarrow> string \<Rightarrow> px_exn + 'r" where
  "px_get self command =
     (case api_get (p_proxmox self) command of
        Inl ex \<Rightarrow> Inl (convert ex)
      | Inr r \<Rightarrow> Inr r)"

definition px_post :: "'r ProxmoxClient \<Rightarrow> string \<Rightarrow> px_exn + 'r" where
  "px_post self command =
     (case api_post (p_proxmox self) command of
        Inl ex \<Rightarrow> Inl (convert ex)
      | Inr r \<Rightarrow> Inr r)"

text \<open>Decimal rendering of an integer, as an f-string does it.\<close>

definition digit :: "nat \<Rightarrow> char" where
  "digit d = char_of (48 + d)"

fun str_nat :: "nat \<Rightarrow> string" where
  "str_nat n = (if n < 10 then [digit n] else str_nat (n div 10) @ [digit (n mod 10)])"

declare str_nat.simps [simp del]

definition str_int :: "int \<Rightarrow> string" where
  "str_int i = (if i < 0 then ''-'' @ str_nat (nat (- i)) else str_nat (nat i))"

definition status_path :: "string \<Rightarrow> string \<Rightarrow> int \<Rightarrow> string \<Rightarrow> string" where
  "status_path node type ident command =
     ''nodes/'' @ node @ ''/'' @ type @ ''/'' @ str_int ident @ ''/status/'' @ command"

text \<open>\<open>start_vm\<close> and \<open>stop_vm\<close> drop the answer and return \<open>None\<close>.\<close>

definition start_vm ::
  "ProxmoxCommand \<Rightarrow> 'r ProxmoxClient \<Rightarrow> string \<Rightarrow> string \<Rightarrow> int \<Rightarrow> px_exn + unit" where
  "start_vm k self node type ident =
     (case px_post self (status_path node type ident (cmd_START k)) of
        Inl e \<Rightarrow> Inl e
      | Inr r \<Rightarrow> Inr ())"

definition stop_vm ::
  "ProxmoxCommand \<Rightarrow> 'r ProxmoxClient \<Rightarrow> string \<Rightarrow> string \<Rightarrow> int \<Rightarrow> px_exn + unit" where
  "stop_vm k self node type ident =
     (case px_post self (status_path node type ident (cmd_SHUTDOWN k)) of
        Inl e \<Rightarrow> Inl e
      | Inr r \<Rightarrow> Inr ())"

definition get_status ::
  "ProxmoxCommand \<Rightarrow> 'r ProxmoxClient \<Rightarrow> string \<Rightarrow> string \<Rightarrow> int \<Rightarrow> px_exn + 'r" where
  "get_status k self node type ident =
     px_get self (status_path node type ident (cmd_CURRENT k))"

section \<open>pxpilot/pilot.py: the start-settings validator\<close>

text \<open>
  Of \<open>VMLaunchSettings\<close> (module \<open>pxpilot.vm_management.models\<close>) the validator reads
  only \<open>vm_id\<close>; the node and kind are the other fields of a launch target.
\<close>

record VMLaunchSettings =
  vm_id :: pyval
  vm_type :: string
  vm_node :: string

text \<open>What the validator prints, one constructor per \<open>print\<close> statement.\<close>

datatype out_line =
    Validation_starting
  | Found_settings nat
  | Wrong_VM_id pyval
  | Validation_completed

text \<open>The test of line 167.\<close>

definition wrong_vm_id :: "pyval \<Rightarrow> bool" where
  "wrong_vm_id v \<longleftrightarrow> is_None v \<or> eq_zero v \<or> \<not> isinstance_int v"

fun check_vms :: "VMLaunchSettings list \<Rightarrow> out_line list" where
  "check_vms [] = []"
| "check_vms (vm # vms) =
     (if wrong_vm_id (vm_id vm) then Wrong_VM_id (vm_id vm) # check_vms vms
      else check_vms vms)"

text \<open>The returned pair is the function's result and the lines it printed.\<close>

definition validate_vms :: "VMLaunchSettings list \<Rightarrow> bool \<times> out_line list" where
  "validate_vms starts =
     (let valid = False
      in (valid,
          [Validation_starting, Found_settings (length starts)]
            @ check_vms starts @ [Validation_completed]))"

section \<open>Notifications\<close>

text \<open>
  An exception of the pilot: an instance of \<open>Exception\<close>, the class the handler of
  \<open>main\<close> names, with its class name and the text \<open>str(ex)\<close>.
\<close>

datatype py_exception = PyException (exc_class: string) (exc_str: string)

type_synonym settings = "(string \<times> pyval) list"

text \<open>
  One entry of the notification settings, as the test suite writes it:
  \<open>{"email": {..., "disabled": True}}\<close>.
\<close>

record NotifierConfig =
  channel_name :: string
  channel_settings :: settings

text \<open>
  Modelled from the spec: the outcome and message classes are not part of the sources.
  Section 3: an outcome is one of started, already-running (skipped) and
  failed(reason); a message is an append-only accumulator of sections: the run header
  with the start time, one line per outcome, an optional fatal-error section.
\<close>

datatype ExecutionOutcome = Started | Already_running | Failed string

datatype msg_section =
    Run_header nat
  | Outcome_line VMLaunchSettings ExecutionOutcome
  | Fatal_section string

type_synonym NotificationMessage = "msg_section list"

record channel =
  ch_name :: string
  ch_settings :: settings

text \<open>
  Modelled from the spec: the channel implementations (module
  \<open>pxpilot.notifications\<close>) are not part of the sources.  Section 4.5: a channel that
  cannot construct itself from its settings fails at construction time; \<open>buildMessage\<close>
  gives a fresh accumulator seeded with a run-start header containing a timestamp.
  An implementation is its constructor's check of the settings (\<open>None\<close>: accepted).
\<close>

type_synonym channel_impl = "settings \<Rightarrow> py_exception option"

type_synonym registry = "string \<rightharpoonup> channel_impl"

definition build_message :: "nat \<Rightarrow> NotificationMessage" where
  "build_message now = [Run_header now]"

definition is_disabled :: "settings \<Rightarrow> bool" where
  "is_disabled s \<longleftrightarrow> map_of s ''disabled'' = Some (PBool True)"

text \<open>
  Modelled from the spec: the class \<open>NotificationManager\<close> is not part of the sources.
  Section 3: the manager owns its channels and a 1:1 mapping from each channel to its
  in-flight message.  The mapping is keyed by the channel's identity, which is its
  position in the list of active channels.  \<open>outbox\<close> records what \<open>send\<close> handed to
  the transports, in order.
\<close>

record NotificationManager =
  notifiers :: "channel list"
  message_map :: "nat \<rightharpoonup> NotificationMessage"
  outbox :: "(channel \<times> NotificationMessage) list"

definition empty_manager :: NotificationManager where
  "empty_manager = \<lparr>notifiers = [], message_map = Map.empty, outbox = []\<rparr>"

definition add_channel :: "nat \<Rightarrow> channel \<Rightarrow> NotificationManager \<Rightarrow> NotificationManager" where
  "add_channel now ch m =
     m\<lparr>notifiers := notifiers m @ [ch],
       message_map := (message_map m)(length (notifiers m) \<mapsto> build_message now)\<rparr>"

text \<open>
  Modelled from the spec: section 4.4, construction.  One channel per entry whose name
  is in the registry and whose settings do not set \<open>disabled: true\<close>; an unknown name is
  ignored; for each active channel its message is created eagerly and the pairing
  recorded.
\<close>

fun add_channels ::
  "registry \<Rightarrow> nat \<Rightarrow> NotifierConfig list \<Rightarrow> NotificationManager \<Rightarrow>
   py_exception + NotificationManager" where
  "add_channels reg now [] m = Inr m"
| "add_channels reg now (c # cs) m =
     (case reg (channel_name c) of
        None \<Rightarrow> add_channels reg now cs m
      | Some impl \<Rightarrow>
          if is_disabled (channel_settings c) then add_channels reg now cs m
          else (case impl (channel_settings c) of
                  Some e \<Rightarrow> Inl e
                | None \<Rightarrow>
                    add_channels reg now cs
                      (add_channel now
                         \<lparr>ch_name = channel_name c, ch_settings = channel_settings c\<rparr> m)))"

definition new_NotificationManager ::
  "nat \<Rightarrow> NotifierConfig list \<Rightarrow> registry \<Rightarrow> py_exception + NotificationManager" where
  "new_NotificationManager now config notifier_types =
     add_channels notifier_types now config empty_manager"

text \<open>
  Modelled from the spec: section 4.4, operations.  \<open>notify\<close> appends a line describing
  the outcome to every active channel's message, \<open>fatal\<close> appends a fatal-error section
  to every active channel's message, \<open>send\<close> sends every active channel's message in
  registration order and is a no-op with zero active channels.
\<close>

definition append_section :: "msg_section \<Rightarrow> NotificationManager \<Rightarrow> NotificationManager" where
  "append_section x m =
     m\<lparr>message_map := (\<lambda>i. map_option (\<lambda>msg. msg @ [x]) (message_map m i))\<rparr>"

definition notify :: "VMLaunchSettings \<Rightarrow> ExecutionOutcome \<Rightarrow> NotificationManager \<Rightarrow> NotificationManager" where
  "notify t outcome m = append_section (Outcome_line t outcome) m"

definition fatal :: "string \<Rightarrow> NotificationManager \<Rightarrow> NotificationManager" where
  "fatal message m = append_section (Fatal_section message) m"

definition pending :: "NotificationManager \<Rightarrow> (channel \<times> NotificationMessage) list" where
  "pending m =
     concat (map (\<lambda>i. case message_map m i of
                         None \<Rightarrow> []
                       | Some msg \<Rightarrow> [(notifiers m ! i, msg)])
                 [0 ..< length (notifiers m)])"

definition send :: "NotificationManager \<Rightarrow> NotificationManager" where
  "send m = m\<lparr>outbox := outbox m @ pending m\<rparr>"

section \<open>Target starter and executor\<close>

text \<open>
  The remote client as a stub that records its calls.  An answer may depend on the
  calls made so far, so a start can change what a later status query returns.
\<close>

datatype rcall = Get_status_call VMLaunchSettings | Start_call VMLaunchSettings

fun is_start_call :: "rcall \<Rightarrow> bool" where
  "is_start_call (Start_call t) = True"
| "is_start_call c = False"

text \<open>
  Modelled from the spec: the remote client used by the pilot (\<open>pxpilot.pxtool\<close>) and
  the readiness validator (\<open>HostValidator\<close>) are not part of the sources.  Section 6:
  \<open>getStatus(node, kind, id) -> status string\<close>, \<open>start(node, kind, id) -> void\<close>, which
  fails with a remote error; section 4.1: \<open>isReady(target) -> bool\<close>, which returns false
  rather than raising.  \<open>indicates_running\<close> decides whether a status string means that
  the target is already running.
\<close>

record remote =
  remote_get_status :: "rcall list \<Rightarrow> VMLaunchSettings \<Rightarrow> py_exception + string"
  remote_start :: "rcall list \<Rightarrow> VMLaunchSettings \<Rightarrow> py_exception + unit"
  is_ready :: "VMLaunchSettings \<Rightarrow> bool"
  indicates_running :: "string \<Rightarrow> bool"

text \<open>
  Modelled from the spec: the class \<open>VMStarter\<close> is not part of the sources.  Section
  4.2: query the status; already running gives \<open>already-running\<close>; a node that is not
  ready gives \<open>failed("node not ready")\<close> without a start; otherwise issue the start, and
  any error of the remote call becomes \<open>failed(message)\<close>.  Section 7: a failed
  get-status call is caught at the same boundary.  The result is the outcome and the
  call log.
\<close>

definition starter_start ::
  "remote \<Rightarrow> rcall list \<Rightarrow> VMLaunchSettings \<Rightarrow> ExecutionOutcome \<times> rcall list" where
  "starter_start r calls t =
     (let calls1 = calls @ [Get_status_call t]
      in case remote_get_status r calls t of
           Inl e \<Rightarrow> (Failed (exc_str e), calls1)
         | Inr status \<Rightarrow>
             if indicates_running r status then (Already_running, calls1)
             else if \<not> is_ready r t then (Failed ''node not ready'', calls1)
             else (case remote_start r calls1 t of
                     Inl e \<Rightarrow> (Failed (exc_str e), calls1 @ [Start_call t])
                   | Inr u \<Rightarrow> (Started, calls1 @ [Start_call t])))"

datatype run_state = NOT_STARTED | RUNNING | COMPLETED

fun is_failed :: "ExecutionOutcome \<Rightarrow> bool" where
  "is_failed (Failed reason) = True"
| "is_failed outcome = False"

text \<open>
  Modelled from the spec: the class \<open>Executor\<close> is not part of the sources.  Section 3:
  the run summary aggregates the outcomes of a run; section 4.3: the state machine
  \<open>NOT_STARTED\<close>, \<open>RUNNING\<close>, \<open>COMPLETED\<close>; targets are processed in configured order;
  for each one the starter is invoked, the outcome appended to the summary and
  forwarded to the notification manager if one is configured.  The final \<open>send\<close> is
  not part of the run: in the sources it is \<open>main\<close> that calls it.
\<close>

record Executor =
  run_state :: run_state
  outcomes :: "ExecutionOutcome list"
  remote_calls :: "rcall list"
  manager :: "NotificationManager option"

definition count_started :: "Executor \<Rightarrow> nat" where
  "count_started x = length (filter (\<lambda>outcome. outcome = Started) (outcomes x))"

definition count_skipped :: "Executor \<Rightarrow> nat" where
  "count_skipped x = length (filter (\<lambda>outcome. outcome = Already_running) (outcomes x))"

definition count_failed :: "Executor \<Rightarrow> nat" where
  "count_failed x = length (filter is_failed (outcomes x))"

definition process_target :: "remote \<Rightarrow> VMLaunchSettings \<Rightarrow> Executor \<Rightarrow> Executor" where
  "process_target r t x =
     (let (outcome, calls) = starter_start r (remote_calls x) t
      in x\<lparr>outcomes := outcomes x @ [outcome],
           remote_calls := calls,
           manager := map_option (notify t outcome) (manager x)\<rparr>)"

fun run_loop :: "remote \<Rightarrow> VMLaunchSettings list \<Rightarrow> Executor \<Rightarrow> Executor" where
  "run_loop r [] x = x"
| "run_loop r (t # ts) x = run_loop r ts (process_target r t x)"

definition new_Executor :: "NotificationManager option \<Rightarrow> Executor" where
  "new_Executor nm =
     \<lparr>run_state = NOT_STARTED, outcomes = [], remote_calls = [], manager = nm\<rparr>"

definition executor_run ::
  "remote \<Rightarrow> NotificationManager option \<Rightarrow> VMLaunchSettings list \<Rightarrow> Executor" where
  "executor_run r nm targets =
     (let x0 = new_Executor nm;
          x1 = x0\<lparr>run_state := RUNNING\<rparr>;
          x2 = run_loop r targets x1
      in x2\<lparr>run_state := COMPLETED\<rparr>)"

section \<open>pxpilot/pilot.py: the entry point\<close>

record proxmox_config =
  px_settings :: "settings option"
  start_options :: "VMLaunchSettings list option"

record app_config =
  proxmox_config :: "proxmox_config option"
  app_settings :: "settings option"
  notification_settings :: "NotifierConfig list option"

datatype HostValidator = HostValidator

datatype 'c VMStarter = VMStarter 'c HostValidator

text \<open>
  What can leave a call in \<open>pilot.py\<close>: an instance of \<open>Exception\<close>, or an instance
  of a class that derives from \<open>BaseException\<close> only.  Of the latter, \<open>SystemExit\<close>
  carries the argument of \<open>sys.exit\<close>; \<open>BaseException_raised\<close> stands for
  \<open>KeyboardInterrupt\<close> and every other such class, with its class name and text.
\<close>

datatype raised =
    Exception_raised py_exception
  | SystemExit_raised pyval
  | BaseException_raised string string

text \<open>\<open>except Exception as ex\<close>: the exception the clause binds, if it matches.\<close>

fun except_Exception :: "raised \<Rightarrow> py_exception option" where
  "except_Exception (Exception_raised ex) = Some ex"
| "except_Exception r = None"

text \<open>
  The collaborators of \<open>pilot.py\<close> that are not part of the sources, as parameters:
  \<open>ConfigManager().load\<close>, the registry \<open>NOTIFIER_TYPES\<close>, the clock, the call
  \<open>ProxmoxClient(**px_settings)\<close> (for \<open>None\<close> the call itself raises), the constructor
  of \<open>Executor\<close> and its method \<open>start\<close>.  Each may raise.  The executor holds a
  reference to the notification manager, so \<open>start\<close> returns the manager as it has left
  it, with what ended it, if anything was raised.  \<open>HostValidator()\<close> and
  \<open>VMStarter(px_client, validator)\<close> only build a value.
\<close>

record ('c, 'x) collaborators =
  load :: "string \<Rightarrow> raised + app_config option"
  NOTIFIER_TYPES :: registry
  clock :: nat
  ProxmoxClient_call :: "settings option \<Rightarrow> raised + 'c"
  Executor_call ::
    "'c \<Rightarrow> VMLaunchSettings list option \<Rightarrow> settings option \<Rightarrow> 'c VMStarter \<Rightarrow>
     NotificationManager option \<Rightarrow> bool \<Rightarrow> raised + 'x"
  Executor_start ::
    "'x \<Rightarrow> NotificationManager option \<Rightarrow> NotificationManager option \<times> raised option"

definition CONFIG_FILE :: string where
  "CONFIG_FILE = ''config.yaml''"

definition quoted :: "string \<Rightarrow> string" where
  "quoted s = [CHR 0x27] @ s @ [CHR 0x27]"

text \<open>Reading an attribute of \<open>None\<close>.\<close>

definition attribute_error :: "string \<Rightarrow> py_exception" where
  "attribute_error name =
     PyException ''AttributeError''
       (quoted ''NoneType'' @ '' object has no attribute '' @ quoted name)"

definition build_executor ::
  "('c, 'x) collaborators \<Rightarrow> app_config \<Rightarrow> NotificationManager option \<Rightarrow> raised + 'x" where
  "build_executor env cfg notification_manager =
     (case proxmox_config cfg of
        None \<Rightarrow> Inl (Exception_raised (attribute_error ''px_settings''))
      | Some pc \<Rightarrow>
          (case ProxmoxClient_call env (px_settings pc) of
             Inl e \<Rightarrow> Inl e
           | Inr px_client \<Rightarrow>
               let starter = VMStarter px_client HostValidator
               in Executor_call env px_client (start_options pc) (app_settings cfg)
                    starter notification_manager False))"

definition build_notification_manager ::
  "('c, 'x) collaborators \<Rightarrow> app_config \<Rightarrow> raised + NotificationManager option" where
  "build_notification_manager env cfg =
     (case notification_settings cfg of
        None \<Rightarrow> Inr None
      | Some ns \<Rightarrow>
          if length ns > 0 then
            (case new_NotificationManager (clock env) ns (NOTIFIER_TYPES env) of
               Inl e \<Rightarrow> Inl (Exception_raised e)
             | Inr m \<Rightarrow> Inr (Some m))
          else Inr None)"

text \<open>What \<open>main\<close> does, in order: its log lines, its output and its calls.\<close>

datatype event =
    Log_info string
  | Log_error string
  | Log_debug string
  | Print string
  | Call_build_executor
  | Call_executor_start
  | Call_fatal string
  | Call_send

datatype completion = Returned | Raised raised

record main_run =
  trace :: "event list"
  final_manager :: "NotificationManager option"
  completion :: completion

text \<open>
  Lines 47 and 48, the body of the \<open>try\<close>: the calls made, the manager as the body
  leaves it, and what the body raised, if anything.
\<close>

definition try_body ::
  "('c, 'x) collaborators \<Rightarrow> app_config \<Rightarrow> NotificationManager option \<Rightarrow>
   event list \<times> NotificationManager option \<times> raised option" where
  "try_body env cfg nm =
     (case build_executor env cfg nm of
        Inl r \<Rightarrow> ([Call_build_executor], nm, Some r)
      | Inr executor \<Rightarrow>
          (let (nm1, r) = Executor_start env executor nm
           in ([Call_build_executor, Call_executor_start], nm1, r)))"

text \<open>
  Lines 50 to 52, the body of the handler for the caught exception \<open>ex\<close>;
  \<open>configured\<close> is \<open>notification_manager is not None\<close>.
\<close>

definition handler ::
  "bool \<Rightarrow> NotificationManager option \<Rightarrow> py_exception \<Rightarrow>
   event list \<times> NotificationManager option" where
  "handler configured nm ex =
     (if configured
      then ([Call_fatal (exc_str ex), Log_error (exc_str ex)],
            map_option (fatal (exc_str ex)) nm)
      else ([Log_error (exc_str ex)], nm))"

text \<open>Lines 54 to 57.\<close>

definition flush ::
  "bool \<Rightarrow> NotificationManager option \<Rightarrow> event list \<times> NotificationManager option" where
  "flush configured nm =
     (if configured
      then ([Log_debug ''Send notifications...'', Call_send], map_option send nm)
      else ([], nm))"

text \<open>Lines 54 to 62, what follows the \<open>try\<close> statement, after the trace \<open>t\<close>.\<close>

definition after_try :: "event list \<Rightarrow> bool \<Rightarrow> NotificationManager option \<Rightarrow> main_run" where
  "after_try t configured nm =
     (let (t4, nm3) = flush configured nm
      in \<lparr>trace = t @ t4 @ [Log_info ''pilot completed.''],
          final_manager = nm3, completion = Returned\<rparr>)"

text \<open>
  \<open>main\<close>.  Nothing guards the calls of \<open>load\<close> and \<open>build_notification_manager\<close>: what
  they raise leaves \<open>main\<close>.  What the \<open>try\<close> body raises is handled when the clause
  \<open>except Exception\<close> matches it and leaves \<open>main\<close> otherwise: there is no \<open>finally\<close>.
\<close>

definition main :: "('c, 'x) collaborators \<Rightarrow> main_run" where
  "main env =
     (let t0 = [Log_info ''pilot is starting'']
      in case load env CONFIG_FILE of
           Inl r \<Rightarrow> \<lparr>trace = t0, final_manager = None, completion = Raised r\<rparr>
         | Inr None \<Rightarrow>
             \<lparr>trace = t0 @ [Print ''Config not loaded.'', Log_info ''pilot completed.''],
              final_manager = None, completion = Returned\<rparr>
         | Inr (Some cfg) \<Rightarrow>
             (let t1 = t0 @ [Log_info ''Config loaded.'']
              in case build_notification_manager env cfg of
                   Inl r \<Rightarrow> \<lparr>trace = t1, final_manager = None, completion = Raised r\<rparr>
                 | Inr notification_manager \<Rightarrow>
                     (let configured = (notification_manager \<noteq> None);
                          (t2, nm1, raised) = try_body env cfg notification_manager
                      in case raised of
                           None \<Rightarrow> after_try (t1 @ t2) configured nm1
                         | Some r \<Rightarrow>
                             (case except_Exception r of
                                Some ex \<Rightarrow>
                                  (let (t3, nm2) = handler configured nm1 ex
                                   in after_try (t1 @ t2 @ t3) configured nm2)
                              | None \<Rightarrow>
                                  \<lparr>trace = t1 @ t2, final_manager = nm1,
                                   completion = Raised r\<rparr>))))"

text \<open>
  The exit status of the interpreter for a program that ends with the call \<open>main()\<close>,
  as a POSIX shell sees it.  \<open>main\<close> has no call of \<open>sys.exit\<close>.  When the call returns
  the status is 0.  An uncaught \<open>SystemExit\<close> gives 0 for \<open>None\<close>, the low eight bits of
  an integer argument, and 1 for any other argument; an uncaught \<open>KeyboardInterrupt\<close>
  gives 130; any other uncaught exception gives 1.
\<close>

fun sys_exit_status :: "pyval \<Rightarrow> nat" where
  "sys_exit_status PNone = 0"
| "sys_exit_status (PInt n) = nat (n mod 256)"
| "sys_exit_status (PBool b) = (if b then 1 else 0)"
| "sys_exit_status v = 1"

fun exit_status :: "completion \<Rightarrow> nat" where
  "exit_status Returned = 0"
| "exit_status (Raised (Exception_raised ex)) = 1"
| "exit_status (Raised (SystemExit_raised code)) = sys_exit_status code"
| "exit_status (Raised (BaseException_raised cls message)) =
     (if cls = ''KeyboardInterrupt'' then 130 else 1)"

section \<open>Example inputs\<close>

definition test_vm :: "pyval \<Rightarrow> VMLaunchSettings" where
  "test_vm v = \<lparr>vm_id = v, vm_type = ''qemu'', vm_node = ''px-test''\<rparr>"

definition failing_api :: "px_exn \<Rightarrow> unit proxmox_api" where
  "failing_api e = \<lparr>api_get = (\<lambda>command. Inr ()), api_post = (\<lambda>command. Inl e)\<rparr>"

definition test_client :: "unit proxmox_api \<Rightarrow> unit ProxmoxClient" where
  "test_client px =
     \<lparr>p_host = ''pve.local'', p_port = 8006, p_user = ''root'', p_realm = ''pam'',
      p_password = ''secret'', p_verify_ssl = False, p_proxmox = px\<rparr>"

definition test_commands :: ProxmoxCommand where
  "test_commands =
     \<lparr>cmd_START = ''start'', cmd_SHUTDOWN = ''shutdown'', cmd_CURRENT = ''current''\<rparr>"

definition stub_remote :: remote where
  "stub_remote =
     \<lparr>remote_get_status =
        (\<lambda>calls t. Inr (if vm_id t = PInt 103 then ''running'' else ''stopped'')),
      remote_start =
        (\<lambda>calls t. if vm_id t = PInt 102
                    then Inl (PyException ''ProxmoxException'' ''VM 102 is locked'')
                    else Inr ()),
      is_ready = (\<lambda>t. True),
      indicates_running = (\<lambda>status. status = ''running'')\<rparr>"

definition three_targets :: "VMLaunchSettings list" where
  "three_targets = [test_vm (PInt 101), test_vm (PInt 102), test_vm (PInt 104)]"

text \<open>The fixtures of \<open>tests/test_notification_manager.py\<close>.\<close>

definition test_tg :: settings where
  "test_tg = [(''token'', PStr ''token_value''), (''chat_id'', PStr ''chan_id_value'')]"

definition test_mail :: "bool \<Rightarrow> settings" where
  "test_mail disabled =
     [(''smtp_server'', PStr []), (''smtp_port'', PStr []), (''smtp_user'', PStr []),
      (''smtp_password'', PStr []), (''from_email'', PStr []), (''to_email'', PStr [])]
     @ (if disabled then [(''disabled'', PBool True)] else [])"

definition notifier_config :: "bool \<Rightarrow> NotifierConfig list" where
  "notifier_config disabled =
     [\<lparr>channel_name = ''telegram'', channel_settings = test_tg\<rparr>,
      \<lparr>channel_name = ''email'', channel_settings = test_mail disabled\<rparr>]"

definition MockNotifier :: channel_impl where
  "MockNotifier config = None"

definition two_notifiers :: registry where
  "two_notifiers = [''telegram'' \<mapsto> MockNotifier, ''email'' \<mapsto> MockNotifier]"

definition one_notifier :: registry where
  "one_notifier = [''telegram'' \<mapsto> MockNotifier]"

definition tg_manager :: NotificationManager where
  "tg_manager =
     \<lparr>notifiers = [\<lparr>ch_name = ''telegram'', ch_settings = test_tg\<rparr>],
      message_map = [0 \<mapsto> [Run_header 5]], outbox = []\<rparr>"

text \<open>
  A run of the pilot: the configuration above, a client whose construction fails with
  \<open>login_error\<close> if one is given, and the executor of the previous section on
  \<open>stub_remote\<close>.
\<close>

definition test_config :: app_config where
  "test_config =
     \<lparr>proxmox_config =
        Some \<lparr>px_settings = Some [(''host'', PStr ''pve.local''), (''user'', PStr ''root'')],
              start_options = Some three_targets\<rparr>,
      app_settings = None,
      notification_settings = Some (notifier_config True)\<rparr>"

definition test_env ::
  "raised option \<Rightarrow> raised option \<Rightarrow>
   (unit, remote \<times> VMLaunchSettings list) collaborators" where
  "test_env login_error start_error =
     \<lparr>load = (\<lambda>file. Inr (Some test_config)),
      NOTIFIER_TYPES = two_notifiers,
      clock = 5,
      ProxmoxClient_call = (\<lambda>s. case login_error of Some r \<Rightarrow> Inl r | None \<Rightarrow> Inr ()),
      Executor_call =
        (\<lambda>px_client starts app starter nm is_debug.
           Inr (stub_remote, case starts of None \<Rightarrow> [] | Some ts \<Rightarrow> ts)),
      Executor_start = (\<lambda>(r, ts) nm. (manager (executor_run r nm ts), start_error))\<rparr>"

definition login_failure :: py_exception where
  "login_failure = PyException ''AuthenticationError'' ''authentication failed for root@pam''"

definition KeyboardInterrupt :: raised where
  "KeyboardInterrupt = BaseException_raised ''KeyboardInterrupt'' []"

text \<open>The message of the telegram channel after the run over \<open>three_targets\<close>.\<close>

definition run_message :: NotificationMessage where
  "run_message =
     [Run_header 5,
      Outcome_line (test_vm (PInt 101)) Started,
      Outcome_line (test_vm (PInt 102)) (Failed ''VM 102 is locked''),
      Outcome_line (test_vm (PInt 104)) Started]"

text \<open>
  An API constructor that knows one identity, \<open>root@pam\<close>, and fails with the identity
  it was given otherwise.
\<close>

definition ok_api :: "unit proxmox_api" where
  "ok_api = \<lparr>api_get = (\<lambda>command. Inr ()), api_post = (\<lambda>command. Inr ())\<rparr>"

definition login_api :: "api_args \<Rightarrow> px_exn + unit proxmox_api" where
  "login_api args =
     (if arg_user args = ''root@pam'' then Inr ok_api
      else Inl (OtherException ''AuthenticationError'' (arg_user args)))"

section \<open>Notions used in the statements\<close>

text \<open>
  A configuration entry that gives no channel: it is marked disabled, or its name is
  absent from the registry.
\<close>

definition inactive :: "registry \<Rightarrow> NotifierConfig \<Rightarrow> bool" where
  "inactive reg c \<longleftrightarrow> is_disabled (channel_settings c) \<or> reg (channel_name c) = None"

text \<open>The calls \<open>main\<close> makes on the notification manager.\<close>

fun is_manager_call :: "event \<Rightarrow> bool" where
  "is_manager_call (Call_fatal message) = True"
| "is_manager_call Call_send = True"
| "is_manager_call e = False"

section \<open>The Proxmox client: login identity and error conversion\<close>

text \<open>
  C10: when the client builds its connection, a user string that already contains
  \<open>@\<close> is handed to the API constructor verbatim as the login identity, and the
  connection (or the error of the constructor) is the same whatever the realm; a user
  string without \<open>@\<close> gives the identity \<open>user@realm\<close>.
\<close>

theorem build_client_login_identity:
  "(CHR ''@'' \<in> set user \<longrightarrow>
      build_client api host port user realm password verify_ssl =
        (case api \<lparr>arg_host = host, arg_port = port, arg_user = user,
                    arg_password = password, arg_verify_ssl = verify_ssl, arg_timeout = 30\<rparr> of
           Inl e \<Rightarrow> Inl e
         | Inr px \<Rightarrow>
             Inr \<lparr>p_host = host, p_port = port, p_user = user, p_realm = realm,
                  p_password = password, p_verify_ssl = verify_ssl, p_proxmox = px\<rparr>)
      \<and> map_sum (\<lambda>e. e) p_proxmox
            (build_client api host port user realm password verify_ssl) =
          map_sum (\<lambda>e. e) p_proxmox
            (build_client api host port user realm' password verify_ssl))
   \<and> (CHR ''@'' \<notin> set user \<longrightarrow>
      build_client api host port user realm password verify_ssl =
        (case api \<lparr>arg_host = host, arg_port = port, arg_user = user @ ''@'' @ realm,
                    arg_password = password, arg_verify_ssl = verify_ssl, arg_timeout = 30\<rparr> of
           Inl e \<Rightarrow> Inl e
         | Inr px \<Rightarrow>
             Inr \<lparr>p_host = host, p_port = port, p_user = user, p_realm = realm,
                  p_password = password, p_verify_ssl = verify_ssl, p_proxmox = px\<rparr>))"
  by (simp add: build_client_def client_args_def user_id_def split: sum.splits)

theorem build_client_login_identity_witness:
  "build_client login_api ''pve.local'' 8006 ''root'' ''pam'' ''secret'' False =
     Inr \<lparr>p_host = ''pve.local'', p_port = 8006, p_user = ''root'', p_realm = ''pam'',
          p_password = ''secret'', p_verify_ssl = False, p_proxmox = ok_api\<rparr>
   \<and> build_client login_api ''pve.local'' 8006 ''root@pve'' ''pam'' ''secret'' False =
       Inl (OtherException ''AuthenticationError'' ''root@pve'')
   \<and> build_client login_api ''pve.local'' 8006 ''root@pam'' ''ldap'' ''secret'' False =
       Inr \<lparr>p_host = ''pve.local'', p_port = 8006, p_user = ''root@pam'', p_realm = ''ldap'',
            p_password = ''secret'', p_verify_ssl = False, p_proxmox = ok_api\<rparr>"
  using build_client_login_identity
          [of "''root''" login_api "''pve.local''" 8006 "''pam''" "''secret''" False "''ldap''"]
        build_client_login_identity
          [of "''root@pve''" login_api "''pve.local''" 8006 "''pam''" "''secret''" False "''ldap''"]
        build_client_login_identity
          [of "''root@pam''" login_api "''pve.local''" 8006 "''ldap''" "''secret''" False "''pam''"]
  by (simp add: login_api_def)

text \<open>
  C7, as stated: every failing remote start call makes \<open>start_vm\<close> fail with
  \<open>ProxmoxException\<close>.  A transport error is not a \<open>ResourceException\<close>; it leaves
  \<open>start_vm\<close> as it is.
\<close>

theorem start_vm_other_exception_counterexample:
  "start_vm test_commands
     (test_client (failing_api (OtherException ''ConnectionError'' ''connection refused'')))
     ''pve'' ''qemu'' 100
   = Inl (OtherException ''ConnectionError'' ''connection refused'')
   \<and> \<not> is_ProxmoxException (OtherException ''ConnectionError'' ''connection refused'')"
  by (simp add: start_vm_def px_post_def test_client_def failing_api_def)

text \<open>
  C7, amended: when the remote start call fails with a \<open>ResourceException\<close>,
  \<open>start_vm\<close> fails with a \<open>ProxmoxException\<close> that carries its content; any other
  exception of the call leaves \<open>start_vm\<close> unchanged.
\<close>

theorem start_vm_converts_resource_exception:
  assumes "api_post (p_proxmox self) (status_path node type ident (cmd_START k)) = Inl ex"
  shows "(is_ResourceException ex \<longrightarrow>
            start_vm k self node type ident = Inl (ProxmoxException (content ex)))
         \<and> (\<not> is_ResourceException ex \<longrightarrow> start_vm k self node type ident = Inl ex)"
  using assms by (cases ex) (simp_all add: start_vm_def px_post_def)

theorem start_vm_converts_resource_exception_witness:
  "start_vm test_commands
     (test_client
        (failing_api (ResourceException 500 ''Internal Server Error'' ''VM 100 not found'')))
     ''pve'' ''qemu'' 100
   = Inl (ProxmoxException ''VM 100 not found'')
   \<and> start_vm test_commands
     (test_client (failing_api (OtherException ''ReadTimeout'' ''timed out'')))
     ''pve'' ''qemu'' 100
   = Inl (OtherException ''ReadTimeout'' ''timed out'')"
  using start_vm_converts_resource_exception
          [of "test_client
                 (failing_api
                    (ResourceException 500 ''Internal Server Error'' ''VM 100 not found''))"
              "''pve''" "''qemu''" 100 test_commands
              "ResourceException 500 ''Internal Server Error'' ''VM 100 not found''"]
        start_vm_converts_resource_exception
          [of "test_client (failing_api (OtherException ''ReadTimeout'' ''timed out''))"
              "''pve''" "''qemu''" 100 test_commands
              "OtherException ''ReadTimeout'' ''timed out''"]
  by (simp add: test_client_def failing_api_def)

section \<open>The start-settings validator\<close>

lemma validate_vms_never_true: "fst (validate_vms starts) = False"
  by (simp add: validate_vms_def)

lemma check_vms_eq:
  "check_vms starts =
     map (\<lambda>vm. Wrong_VM_id (vm_id vm)) (filter (\<lambda>vm. wrong_vm_id (vm_id vm)) starts)"
  by (induction starts) simp_all

text \<open>
  C5: the validator returns false if and only if at least one target fails its id
  check.  On a list in which every id is valid the function prints no complaint and
  still returns \<open>False\<close>: \<open>valid\<close> is set to \<open>False\<close> before the loop and never again.
\<close>

theorem validate_vms_valid_list_returns_false:
  "validate_vms [test_vm (PInt 100), test_vm (PInt 101)]
     = (False, [Validation_starting, Found_settings 2, Validation_completed])"
  by (simp add: validate_vms_def test_vm_def wrong_vm_id_def)

text \<open>
  C6, as stated: every target whose identifier is not a positive integer is flagged.
  A negative identifier passes the test of line 167 and no line is printed for it.
\<close>

theorem validate_vms_negative_id_counterexample:
  "\<not> (0 < (- 5 :: int))
   \<and> snd (validate_vms [test_vm (PInt (- 5))])
       = [Validation_starting, Found_settings 1, Validation_completed]"
  by (simp add: validate_vms_def test_vm_def wrong_vm_id_def)

text \<open>
  C6, amended: every target whose identifier is \<open>None\<close>, zero or a value that is not an
  integer is flagged with a \<open>Wrong VM id\<close> line.
\<close>

theorem validate_vms_flags_none_zero_non_int:
  assumes "vm \<in> set starts"
    and "vm_id vm = PNone \<or> vm_id vm = PInt 0 \<or> vm_id vm = PBool False
         \<or> (\<exists>q. vm_id vm = PFloat q) \<or> (\<exists>s. vm_id vm = PStr s)"
  shows "Wrong_VM_id (vm_id vm) \<in> set (snd (validate_vms starts))"
proof -
  from assms(2) have "wrong_vm_id (vm_id vm)"
    by (auto simp: wrong_vm_id_def)
  with assms(1) have "Wrong_VM_id (vm_id vm) \<in> set (check_vms starts)"
    by (auto simp: check_vms_eq)
  then show ?thesis
    by (simp add: validate_vms_def)
qed

theorem validate_vms_flags_none_zero_non_int_witness:
  "Wrong_VM_id PNone
     \<in> set (snd (validate_vms
          [test_vm (PInt 100), test_vm PNone, test_vm (PInt 0), test_vm (PStr ''abc'')]))
   \<and> Wrong_VM_id (PInt 0)
     \<in> set (snd (validate_vms
          [test_vm (PInt 100), test_vm PNone, test_vm (PInt 0), test_vm (PStr ''abc'')]))
   \<and> Wrong_VM_id (PStr ''abc'')
     \<in> set (snd (validate_vms
          [test_vm (PInt 100), test_vm PNone, test_vm (PInt 0), test_vm (PStr ''abc'')]))"
  using validate_vms_flags_none_zero_non_int
          [of "test_vm PNone"
              "[test_vm (PInt 100), test_vm PNone, test_vm (PInt 0), test_vm (PStr ''abc'')]"]
        validate_vms_flags_none_zero_non_int
          [of "test_vm (PInt 0)"
              "[test_vm (PInt 100), test_vm PNone, test_vm (PInt 0), test_vm (PStr ''abc'')]"]
        validate_vms_flags_none_zero_non_int
          [of "test_vm (PStr ''abc'')"
              "[test_vm (PInt 100), test_vm PNone, test_vm (PInt 0), test_vm (PStr ''abc'')]"]
  by (simp add: test_vm_def)

section \<open>The target starter\<close>

lemma starter_start_calls:
  "snd (starter_start r calls t) = calls @ [Get_status_call t]
   \<or> snd (starter_start r calls t) = calls @ [Get_status_call t, Start_call t]"
  by (simp add: starter_start_def Let_def split: sum.splits)

lemma starter_start_raises:
  assumes "remote_get_status r calls t = Inr status"
    and "\<not> indicates_running r status"
    and "is_ready r t"
    and "remote_start r (calls @ [Get_status_call t]) t = Inl e"
  shows "starter_start r calls t =
           (Failed (exc_str e), calls @ [Get_status_call t, Start_call t])"
  using assms by (simp add: starter_start_def Let_def)

text \<open>
  C9: idempotence of starting.  For a target whose status indicates that it is
  already running, the starter returns the already-running outcome, never a failed
  one, and issues no start command: the only call it adds to the log of the remote
  client is the status query.
\<close>

theorem starter_start_already_running:
  assumes "remote_get_status r calls t = Inr status"
    and "indicates_running r status"
  shows "fst (starter_start r calls t) = Already_running
         \<and> \<not> is_failed (fst (starter_start r calls t))
         \<and> snd (starter_start r calls t) = calls @ [Get_status_call t]
         \<and> filter is_start_call (snd (starter_start r calls t)) = filter is_start_call calls"
  using assms by (simp add: starter_start_def Let_def)

theorem starter_start_already_running_witness:
  "remote_get_status stub_remote [] (test_vm (PInt 103)) = Inr ''running''
   \<and> indicates_running stub_remote ''running''
   \<and> fst (starter_start stub_remote [] (test_vm (PInt 103))) = Already_running
   \<and> snd (starter_start stub_remote [] (test_vm (PInt 103)))
       = [Get_status_call (test_vm (PInt 103))]
   \<and> filter is_start_call (snd (starter_start stub_remote [] (test_vm (PInt 103)))) = []"
  using starter_start_already_running [of stub_remote "[]" "test_vm (PInt 103)" "''running''"]
  by (simp add: stub_remote_def test_vm_def)

section \<open>The executor\<close>

lemma run_loop_snoc: "run_loop r (ts @ [t]) x = process_target r t (run_loop r ts x)"
  by (induction ts arbitrary: x) simp_all

lemma process_target_fields:
  "run_state (process_target r t x) = run_state x"
  "outcomes (process_target r t x) = outcomes x @ [fst (starter_start r (remote_calls x) t)]"
  "remote_calls (process_target r t x) = snd (starter_start r (remote_calls x) t)"
  by (simp_all add: process_target_def split: prod.splits)

lemma run_loop_run_state: "run_state (run_loop r ts x) = run_state x"
  by (induction ts arbitrary: x) (simp_all add: process_target_fields)

lemma run_loop_length:
  "length (outcomes (run_loop r ts x)) = length (outcomes x) + length ts"
  by (induction ts arbitrary: x) (simp_all add: process_target_fields)

text \<open>
  The outcome at position \<open>i\<close> is what the starter returns for target \<open>i\<close> on the call
  log the earlier targets have left.  Induction from the right, as the loop appends.
\<close>

lemma run_loop_take:
  "i < length ts \<Longrightarrow>
   outcomes (run_loop r ts x) ! (length (outcomes x) + i) =
     fst (starter_start r (remote_calls (run_loop r (take i ts) x)) (ts ! i))"
proof (induction ts arbitrary: i rule: rev_induct)
  case Nil
  then show ?case by simp
next
  case (snoc t ts)
  show ?case
  proof (cases "i < length ts")
    case True
    then show ?thesis
      using snoc.IH [of i]
      by (simp add: run_loop_snoc process_target_fields nth_append run_loop_length)
  next
    case False
    with snoc.prems have "i = length ts" by simp
    then show ?thesis
      by (simp add: run_loop_snoc process_target_fields nth_append run_loop_length)
  qed
qed

lemma run_loop_status_calls:
  "filter (\<lambda>c. \<not> is_start_call c) (remote_calls (run_loop r ts x)) =
     filter (\<lambda>c. \<not> is_start_call c) (remote_calls x) @ map Get_status_call ts"
proof (induction ts rule: rev_induct)
  case Nil
  then show ?case by simp
next
  case (snoc t ts)
  then show ?case
    using starter_start_calls [of r "remote_calls (run_loop r ts x)" t]
    by (auto simp: run_loop_snoc process_target_fields)
qed

lemma executor_run_fields:
  "run_state (executor_run r nm ts) = COMPLETED"
  "outcomes (executor_run r nm ts) =
     outcomes (run_loop r ts ((new_Executor nm)\<lparr>run_state := RUNNING\<rparr>))"
  "remote_calls (executor_run r nm ts) =
     remote_calls (run_loop r ts ((new_Executor nm)\<lparr>run_state := RUNNING\<rparr>))"
  by (simp_all add: executor_run_def Let_def)

text \<open>
  C1: failure isolation.  For every batch of targets the run reaches \<open>COMPLETED\<close>
  with one outcome per target, and the status of every target is queried, in order;
  the outcome of target \<open>i\<close> is the starter's outcome for that target alone; and when
  the start call of target \<open>i\<close> raises, its outcome is the failed outcome with the
  exception's message.
\<close>

theorem executor_failure_isolation:
  "run_state (executor_run r nm ts) = COMPLETED
   \<and> length (outcomes (executor_run r nm ts)) = length ts
   \<and> filter (\<lambda>c. \<not> is_start_call c) (remote_calls (executor_run r nm ts))
       = map Get_status_call ts
   \<and> (\<forall>i < length ts.
         outcomes (executor_run r nm ts) ! i =
           fst (starter_start r (remote_calls (executor_run r nm (take i ts))) (ts ! i)))
   \<and> (\<forall>i < length ts. \<forall>status e.
         remote_get_status r (remote_calls (executor_run r nm (take i ts))) (ts ! i) = Inr status
         \<and> \<not> indicates_running r status
         \<and> is_ready r (ts ! i)
         \<and> remote_start r
              (remote_calls (executor_run r nm (take i ts)) @ [Get_status_call (ts ! i)])
              (ts ! i) = Inl e
         \<longrightarrow> outcomes (executor_run r nm ts) ! i = Failed (exc_str e))"
proof -
  let ?x = "(new_Executor nm)\<lparr>run_state := RUNNING\<rparr>"
  have x0: "outcomes ?x = []" "remote_calls ?x = []"
    by (simp_all add: new_Executor_def)
  have nth: "outcomes (executor_run r nm ts) ! i =
           fst (starter_start r (remote_calls (executor_run r nm (take i ts))) (ts ! i))"
    if "i < length ts" for i
    using run_loop_take [OF that, of r ?x] by (simp add: executor_run_fields x0)
  have len: "length (outcomes (executor_run r nm ts)) = length ts"
    by (simp add: executor_run_fields run_loop_length x0)
  have calls: "filter (\<lambda>c. \<not> is_start_call c) (remote_calls (executor_run r nm ts))
       = map Get_status_call ts"
    by (simp add: executor_run_fields run_loop_status_calls x0)
  show ?thesis
    using nth len calls by (auto simp: executor_run_fields(1) starter_start_raises)
qed

theorem executor_failure_isolation_witness:
  "(1::nat) < length three_targets
   \<and> remote_start stub_remote
        (remote_calls (executor_run stub_remote None (take 1 three_targets))
           @ [Get_status_call (three_targets ! 1)])
        (three_targets ! 1)
       = Inl (PyException ''ProxmoxException'' ''VM 102 is locked'')
   \<and> run_state (executor_run stub_remote None three_targets) = COMPLETED
   \<and> outcomes (executor_run stub_remote None three_targets)
       = [Started, Failed ''VM 102 is locked'', Started]
   \<and> count_failed (executor_run stub_remote None three_targets) = 1
   \<and> count_started (executor_run stub_remote None three_targets) = 2"
  using executor_failure_isolation [of stub_remote None three_targets]
  by (simp add: executor_run_def new_Executor_def process_target_def starter_start_def
      stub_remote_def three_targets_def test_vm_def count_failed_def count_started_def Let_def)

section \<open>Construction of the notification manager\<close>

text \<open>
  The invariant of the construction loop: the keys of the message map are the
  positions of the active channels.
\<close>

lemma add_channels_count:
  assumes "add_channels reg now cs m = Inr m'"
    and "dom (message_map m) = {..< length (notifiers m)}"
  shows "length (notifiers m') =
           length (notifiers m) + length (filter (\<lambda>c. \<not> inactive reg c) cs)
         \<and> dom (message_map m') = {..< length (notifiers m')}"
  using assms
proof (induction cs arbitrary: m)
  case Nil
  then show ?case by simp
next
  case (Cons c cs)
  show ?case
  proof (cases "inactive reg c")
    case True
    with Cons.prems(1) have "add_channels reg now cs m = Inr m'"
      by (auto simp: inactive_def split: option.splits if_splits)
    from Cons.IH [OF this Cons.prems(2)] True show ?thesis by simp
  next
    case False
    let ?m = "add_channel now \<lparr>ch_name = channel_name c, ch_settings = channel_settings c\<rparr> m"
    from False Cons.prems(1) have step: "add_channels reg now cs ?m = Inr m'"
      by (auto simp: inactive_def split: option.splits if_splits)
    have len: "length (notifiers ?m) = Suc (length (notifiers m))"
      by (simp add: add_channel_def)
    have "dom (message_map ?m) = {..< length (notifiers ?m)}"
      using Cons.prems(2) by (auto simp: add_channel_def lessThan_Suc)
    from Cons.IH [OF step this] False len show ?thesis by simp
  qed
qed

lemma test_init_disabled:
  "new_NotificationManager 5 (notifier_config True) two_notifiers = Inr tg_manager"
  by (simp add: new_NotificationManager_def notifier_config_def two_notifiers_def
      MockNotifier_def is_disabled_def test_mail_def test_tg_def add_channel_def
      empty_manager_def build_message_def tg_manager_def)

lemma test_asa:
  "new_NotificationManager 5 (notifier_config False) one_notifier = Inr tg_manager"
  by (simp add: new_NotificationManager_def notifier_config_def one_notifier_def
      MockNotifier_def is_disabled_def test_mail_def test_tg_def add_channel_def
      empty_manager_def build_message_def tg_manager_def)

text \<open>
  C4: for a configuration list of length \<open>N\<close> in which \<open>k\<close> entries are disabled or
  have a name absent from the registry, the constructed manager has exactly \<open>N - k\<close>
  active channels and exactly \<open>N - k\<close> channel-to-message mappings.
\<close>

theorem manager_channel_count:
  assumes "new_NotificationManager now config reg = Inr m"
  shows "length (notifiers m) = length config - length (filter (inactive reg) config)
         \<and> card (dom (message_map m)) = length config - length (filter (inactive reg) config)"
proof -
  have "dom (message_map empty_manager) = {..< length (notifiers empty_manager)}"
    by (simp add: empty_manager_def)
  with assms have *: "length (notifiers m) = length (filter (\<lambda>c. \<not> inactive reg c) config)"
    and **: "dom (message_map m) = {..< length (notifiers m)}"
    using add_channels_count [of reg now config empty_manager m]
    by (simp_all add: new_NotificationManager_def empty_manager_def)
  have "length (filter (inactive reg) config) + length (filter (\<lambda>c. \<not> inactive reg c) config)
          = length config"
    by (rule sum_length_filter_compl)
  with * ** show ?thesis by simp
qed

theorem manager_channel_count_witness:
  "new_NotificationManager 5 (notifier_config True) two_notifiers = Inr tg_manager
   \<and> new_NotificationManager 5 (notifier_config False) one_notifier = Inr tg_manager
   \<and> length (notifier_config True) = 2
   \<and> length (filter (inactive two_notifiers) (notifier_config True)) = 1
   \<and> length (filter (inactive one_notifier) (notifier_config False)) = 1
   \<and> length (notifiers tg_manager) = 1
   \<and> card (dom (message_map tg_manager)) = 1"
  using manager_channel_count [OF test_init_disabled] manager_channel_count [OF test_asa]
    test_init_disabled test_asa
  by (simp add: notifier_config_def inactive_def is_disabled_def test_mail_def test_tg_def
      two_notifiers_def one_notifier_def)

section \<open>The entry point\<close>

lemma main_loaded:
  assumes "load env CONFIG_FILE = Inr (Some cfg)"
    and "build_notification_manager env cfg = Inr nm"
    and "try_body env cfg nm = (t2, nm1, raised)"
  shows "main env =
     (case raised of
        None \<Rightarrow>
          after_try ([Log_info ''pilot is starting'', Log_info ''Config loaded.''] @ t2)
            (nm \<noteq> None) nm1
      | Some r \<Rightarrow>
          (case except_Exception r of
             Some ex \<Rightarrow>
               after_try
                 ([Log_info ''pilot is starting'', Log_info ''Config loaded.''] @ t2
                    @ fst (handler (nm \<noteq> None) nm1 ex))
                 (nm \<noteq> None) (snd (handler (nm \<noteq> None) nm1 ex))
           | None \<Rightarrow>
               \<lparr>trace = [Log_info ''pilot is starting'', Log_info ''Config loaded.''] @ t2,
                final_manager = nm1, completion = Raised r\<rparr>))"
  using assms by (simp add: main_def Let_def case_prod_beta split: option.splits)

lemma try_body_calls:
  assumes "try_body env cfg nm = (t2, nm1, raised)"
  shows "t2 = [Call_build_executor] \<or> t2 = [Call_build_executor, Call_executor_start]"
  using assms by (auto simp: try_body_def case_prod_beta split: sum.splits)

text \<open>What leaves the construction or \<open>start\<close> leaves the \<open>try\<close> body.\<close>

lemma try_body_raised:
  assumes "build_executor env cfg nm = Inl r
         \<or> (\<exists>executor. build_executor env cfg nm = Inr executor
               \<and> snd (Executor_start env executor nm) = Some r)"
    and "nm1 = (case build_executor env cfg nm of
                  Inl e \<Rightarrow> nm
                | Inr executor \<Rightarrow> fst (Executor_start env executor nm))"
  shows "\<exists>t2. try_body env cfg nm = (t2, nm1, Some r)"
proof (cases "build_executor env cfg nm")
  case (Inl e)
  with assms(1) have "e = r" by auto
  with Inl assms(2) show ?thesis by (simp add: try_body_def)
next
  case (Inr x)
  with assms(1) have raised: "snd (Executor_start env x nm) = Some r" by auto
  obtain nm' r' where start: "Executor_start env x nm = (nm', r')"
    by (cases "Executor_start env x nm")
  with raised have "r' = Some r" by simp
  with Inr start assms(2) show ?thesis by (simp add: try_body_def)
qed

lemma message_map_send: "message_map (send m) = message_map m"
  by (simp add: send_def)

lemma notifiers_send_fatal: "notifiers (send (fatal s m)) = notifiers m"
  by (simp add: send_def fatal_def append_section_def)

lemma message_map_fatal:
  "message_map (fatal s m) i = map_option (\<lambda>msg. msg @ [Fatal_section s]) (message_map m i)"
  by (simp add: fatal_def append_section_def)

lemma main_exit_status_caught:
  assumes "load env CONFIG_FILE = Inr (Some cfg)"
    and "build_notification_manager env cfg = Inr nm"
    and "try_body env cfg nm = (t2, nm1, Some (Exception_raised ex))"
  shows "exit_status (completion (main env)) = 0"
  unfolding main_loaded [OF assms]
  by (simp add: after_try_def case_prod_beta)

lemma test_env_load: "load (test_env le se) CONFIG_FILE = Inr (Some test_config)"
  by (simp add: test_env_def)

lemma test_env_manager:
  "build_notification_manager (test_env le se) test_config = Inr (Some tg_manager)"
  by (simp add: build_notification_manager_def test_env_def test_config_def
      test_init_disabled) (simp add: notifier_config_def)

lemma test_env_build_executor_fails:
  "build_executor (test_env (Some r) se) test_config nm = Inl r"
  by (simp add: build_executor_def test_env_def test_config_def)

lemma test_env_build_executor:
  "build_executor (test_env None se) test_config nm = Inr (stub_remote, three_targets)"
  by (simp add: build_executor_def test_env_def test_config_def)

lemma test_env_start:
  "Executor_start (test_env le se) (stub_remote, three_targets) nm =
     (manager (executor_run stub_remote nm three_targets), se)"
  by (simp add: test_env_def)

lemma test_run_manager:
  "manager (executor_run stub_remote (Some tg_manager) three_targets) =
     Some (tg_manager\<lparr>message_map := [0 \<mapsto> run_message]\<rparr>)"
  by (auto simp: executor_run_def new_Executor_def process_target_def starter_start_def
      stub_remote_def three_targets_def test_vm_def Let_def notify_def append_section_def
      tg_manager_def run_message_def fun_eq_iff)

lemma test_env_try_body:
  "try_body (test_env None se) test_config (Some tg_manager) =
     ([Call_build_executor, Call_executor_start],
      Some (tg_manager\<lparr>message_map := [0 \<mapsto> run_message]\<rparr>), se)"
  by (simp add: try_body_def test_env_build_executor test_env_start test_run_manager)

lemma test_env_try_body_fails:
  "try_body (test_env (Some r) se) test_config nm = ([Call_build_executor], nm, Some r)"
  by (simp add: try_body_def test_env_build_executor_fails)

lemma test_env_ok:
  "main (test_env None None) =
     \<lparr>trace =
        [Log_info ''pilot is starting'', Log_info ''Config loaded.'',
         Call_build_executor, Call_executor_start,
         Log_debug ''Send notifications...'', Call_send, Log_info ''pilot completed.''],
      final_manager = Some (send (tg_manager\<lparr>message_map := [0 \<mapsto> run_message]\<rparr>)),
      completion = Returned\<rparr>"
  unfolding main_loaded [OF test_env_load test_env_manager test_env_try_body]
  by (simp add: after_try_def flush_def)

lemma test_env_fatal:
  "main (test_env (Some (Exception_raised login_failure)) None) =
     \<lparr>trace =
        [Log_info ''pilot is starting'', Log_info ''Config loaded.'',
         Call_build_executor,
         Call_fatal ''authentication failed for root@pam'',
         Log_error ''authentication failed for root@pam'',
         Log_debug ''Send notifications...'', Call_send, Log_info ''pilot completed.''],
      final_manager =
        Some (send (fatal ''authentication failed for root@pam'' tg_manager)),
      completion = Returned\<rparr>"
  unfolding main_loaded [OF test_env_load test_env_manager test_env_try_body_fails]
  by (simp add: after_try_def flush_def handler_def login_failure_def)

lemma test_env_interrupted:
  "except_Exception r = None \<Longrightarrow>
   main (test_env None (Some r)) =
     \<lparr>trace =
        [Log_info ''pilot is starting'', Log_info ''Config loaded.'',
         Call_build_executor, Call_executor_start],
      final_manager = Some (tg_manager\<lparr>message_map := [0 \<mapsto> run_message]\<rparr>),
      completion = Raised r\<rparr>"
  unfolding main_loaded [OF test_env_load test_env_manager test_env_try_body]
  by simp

lemma outbox_sent:
  "outbox (send (tg_manager\<lparr>message_map := [0 \<mapsto> msg]\<rparr>)) =
     [(\<lparr>ch_name = ''telegram'', ch_settings = test_tg\<rparr>, msg)]"
  by (simp add: send_def pending_def tg_manager_def)

text \<open>
  C2, as stated: with a notification manager configured, \<open>send\<close> is called exactly
  once on every exit path.  A \<open>KeyboardInterrupt\<close> out of \<open>executor.start()\<close> is not
  an instance of \<open>Exception\<close>: it leaves \<open>main\<close>, and \<open>send\<close> is never called.
\<close>

theorem main_send_skipped_counterexample:
  "build_notification_manager (test_env None (Some KeyboardInterrupt)) test_config
     = Inr (Some tg_manager)
   \<and> count_list (trace (main (test_env None (Some KeyboardInterrupt)))) Call_send = 0
   \<and> completion (main (test_env None (Some KeyboardInterrupt))) = Raised KeyboardInterrupt
   \<and> map_option outbox (final_manager (main (test_env None (Some KeyboardInterrupt))))
       = Some []"
  by (simp add: test_env_manager test_env_interrupted KeyboardInterrupt_def tg_manager_def)

text \<open>
  C2, amended: in every run in which a notification manager is configured and the
  \<open>try\<close> body (construction and start of the executor) returns or raises an instance
  of \<open>Exception\<close>, \<open>send\<close> is called exactly once, after the calls of the \<open>try\<close> body
  and as the last call before the closing log line, and it is applied to the manager
  as the \<open>try\<close> body (and the handler, after an exception) left it.  When the body
  raises anything that is not an instance of \<open>Exception\<close>, that leaves \<open>main\<close> and
  \<open>send\<close> is not called.
\<close>

theorem main_sends_once:
  assumes "load env CONFIG_FILE = Inr (Some cfg)"
    and "build_notification_manager env cfg = Inr (Some m)"
    and "try_body env cfg (Some m) = (t2, nm1, raised)"
  shows "(raised = None \<or> (\<exists>ex. raised = Some (Exception_raised ex)) \<longrightarrow>
            completion (main env) = Returned
            \<and> count_list (trace (main env)) Call_send = 1
            \<and> dropWhile (\<lambda>e. e \<noteq> Call_send) (trace (main env))
                = [Call_send, Log_info ''pilot completed.'']
            \<and> Call_build_executor
                \<in> set (takeWhile (\<lambda>e. e \<noteq> Call_send) (trace (main env))))
         \<and> (raised = None \<longrightarrow> final_manager (main env) = map_option send nm1)
         \<and> (\<forall>ex. raised = Some (Exception_raised ex) \<longrightarrow>
               final_manager (main env) = map_option (\<lambda>m. send (fatal (exc_str ex) m)) nm1)
         \<and> (\<forall>r. raised = Some r \<and> except_Exception r = None \<longrightarrow>
               completion (main env) = Raised r
               \<and> count_list (trace (main env)) Call_send = 0
               \<and> final_manager (main env) = nm1)"
  unfolding main_loaded [OF assms]
  using try_body_calls [OF assms(3)]
  by (auto simp: after_try_def flush_def handler_def option.map_comp comp_def)

theorem main_sends_once_witness:
  "try_body (test_env None None) test_config (Some tg_manager) =
     ([Call_build_executor, Call_executor_start],
      Some (tg_manager\<lparr>message_map := [0 \<mapsto> run_message]\<rparr>), None)
   \<and> count_list (trace (main (test_env None None))) Call_send = 1
   \<and> map_option outbox (final_manager (main (test_env None None)))
       = Some [(\<lparr>ch_name = ''telegram'', ch_settings = test_tg\<rparr>, run_message)]
   \<and> try_body (test_env (Some (Exception_raised login_failure)) None) test_config
        (Some tg_manager)
       = ([Call_build_executor], Some tg_manager, Some (Exception_raised login_failure))
   \<and> count_list (trace (main (test_env (Some (Exception_raised login_failure)) None)))
        Call_send = 1
   \<and> final_manager (main (test_env (Some (Exception_raised login_failure)) None))
       = Some (send (fatal ''authentication failed for root@pam'' tg_manager))"
proof -
  let ?ok = "test_env None None"
  let ?failing = "test_env (Some (Exception_raised login_failure)) None"
  from main_sends_once
         [OF test_env_load test_env_manager test_env_try_body [of None]]
  have ok: "count_list (trace (main ?ok)) Call_send = 1
     \<and> final_manager (main ?ok)
         = Some (send (tg_manager\<lparr>message_map := [0 \<mapsto> run_message]\<rparr>))"
    by simp
  from main_sends_once
         [OF test_env_load test_env_manager
             test_env_try_body_fails [of "Exception_raised login_failure" None "Some tg_manager"]]
  have failing: "count_list (trace (main ?failing)) Call_send = 1
     \<and> final_manager (main ?failing)
         = Some (send (fatal (exc_str login_failure) tg_manager))"
    by simp
  from ok failing show ?thesis
    by (simp add: test_env_try_body test_env_try_body_fails outbox_sent login_failure_def)
qed

text \<open>
  C3, as stated: every exception raised by the construction or the start of the
  executor is caught and reported by \<open>fatal\<close>, and the flush still happens.
  \<open>SystemExit\<close> out of \<open>executor.start()\<close> is not caught: \<open>main\<close> raises it, with no call
  of \<open>fatal\<close> and no call of \<open>send\<close>.
\<close>

theorem main_system_exit_counterexample:
  "build_executor (test_env None (Some (SystemExit_raised (PInt 3)))) test_config
      (Some tg_manager) = Inr (stub_remote, three_targets)
   \<and> snd (Executor_start (test_env None (Some (SystemExit_raised (PInt 3))))
            (stub_remote, three_targets) (Some tg_manager))
       = Some (SystemExit_raised (PInt 3))
   \<and> filter is_manager_call (trace (main (test_env None (Some (SystemExit_raised (PInt 3))))))
       = []
   \<and> completion (main (test_env None (Some (SystemExit_raised (PInt 3)))))
       = Raised (SystemExit_raised (PInt 3))"
  by (simp add: test_env_build_executor test_env_start test_env_interrupted)

text \<open>
  C3, amended: every instance of \<open>Exception\<close> raised by the construction of the
  executor or by its start is caught by \<open>main\<close>: it is logged, \<open>main\<close> returns instead
  of raising, and with a manager configured the calls on the manager are exactly one
  \<open>fatal\<close> with the exception's message followed by \<open>send\<close>, both applied to the
  manager as the \<open>try\<close> body left it.  Anything raised there that is not an instance
  of \<open>Exception\<close> leaves \<open>main\<close> with no call of \<open>fatal\<close> and no call of \<open>send\<close>.
\<close>

theorem main_reports_fatal_once:
  assumes "load env CONFIG_FILE = Inr (Some cfg)"
    and "build_notification_manager env cfg = Inr nm"
    and "build_executor env cfg nm = Inl r
         \<or> (\<exists>executor. build_executor env cfg nm = Inr executor
               \<and> snd (Executor_start env executor nm) = Some r)"
    and "nm1 = (case build_executor env cfg nm of
                  Inl e \<Rightarrow> nm
                | Inr executor \<Rightarrow> fst (Executor_start env executor nm))"
  shows "(\<forall>ex. r = Exception_raised ex \<longrightarrow>
            completion (main env) = Returned
            \<and> filter is_manager_call (trace (main env))
                = (if nm = None then [] else [Call_fatal (exc_str ex), Call_send])
            \<and> Log_error (exc_str ex) \<in> set (trace (main env))
            \<and> final_manager (main env)
                = (if nm = None then nm1
                   else map_option (\<lambda>m. send (fatal (exc_str ex) m)) nm1))
         \<and> (except_Exception r = None \<longrightarrow>
               completion (main env) = Raised r
               \<and> filter is_manager_call (trace (main env)) = []
               \<and> final_manager (main env) = nm1)"
proof -
  from try_body_raised [OF assms(3,4)]
  obtain t2 where tb: "try_body env cfg nm = (t2, nm1, Some r)" by blast
  show ?thesis
    unfolding main_loaded [OF assms(1,2) tb]
    using try_body_calls [OF tb]
    by (cases nm)
      (auto simp: after_try_def flush_def handler_def option.map_comp comp_def)
qed

theorem main_reports_fatal_once_witness:
  "build_executor (test_env (Some (Exception_raised login_failure)) None) test_config
      (Some tg_manager) = Inl (Exception_raised login_failure)
   \<and> completion (main (test_env (Some (Exception_raised login_failure)) None)) = Returned
   \<and> filter is_manager_call
        (trace (main (test_env (Some (Exception_raised login_failure)) None)))
       = [Call_fatal ''authentication failed for root@pam'', Call_send]
   \<and> map_option outbox
        (final_manager (main (test_env (Some (Exception_raised login_failure)) None)))
       = Some [(\<lparr>ch_name = ''telegram'', ch_settings = test_tg\<rparr>,
                [Run_header 5, Fatal_section ''authentication failed for root@pam''])]"
proof -
  let ?env = "test_env (Some (Exception_raised login_failure)) None"
  have raised: "build_executor ?env test_config (Some tg_manager)
                  = Inl (Exception_raised login_failure)
         \<or> (\<exists>executor. build_executor ?env test_config (Some tg_manager) = Inr executor
               \<and> snd (Executor_start ?env executor (Some tg_manager))
                   = Some (Exception_raised login_failure))"
    by (simp add: test_env_build_executor_fails)
  have left: "Some tg_manager =
      (case build_executor ?env test_config (Some tg_manager) of
         Inl e \<Rightarrow> Some tg_manager
       | Inr executor \<Rightarrow> fst (Executor_start ?env executor (Some tg_manager)))"
    by (simp add: test_env_build_executor_fails)
  from main_reports_fatal_once [OF test_env_load test_env_manager raised left]
  have "completion (main ?env) = Returned
     \<and> filter is_manager_call (trace (main ?env))
         = [Call_fatal (exc_str login_failure), Call_send]
     \<and> final_manager (main ?env) = Some (send (fatal (exc_str login_failure) tg_manager))"
    by simp
  then show ?thesis
    by (simp add: test_env_build_executor_fails login_failure_def send_def pending_def
        fatal_def append_section_def tg_manager_def)
qed

text \<open>
  C8, as stated: when a fatal run-level error occurs, the process ends with a
  non-zero exit code.  When the construction of the client fails, \<open>main\<close> reports the
  error to the manager and returns; the exit status is 0.
\<close>

theorem main_exit_status_counterexample:
  "build_executor (test_env (Some (Exception_raised login_failure)) None) test_config
      (Some tg_manager) = Inl (Exception_raised login_failure)
   \<and> Call_fatal ''authentication failed for root@pam''
       \<in> set (trace (main (test_env (Some (Exception_raised login_failure)) None)))
   \<and> exit_status (completion (main (test_env (Some (Exception_raised login_failure)) None)))
       = 0"
  by (simp add: test_env_build_executor_fails test_env_fatal)

text \<open>
  C8, amended: when a fatal run-level error occurs, that is, when the construction
  of the executor or its start raises an instance of \<open>Exception\<close>, \<open>main\<close> logs the
  error and returns normally, so the exit status is 0; with a manager configured the
  error is reported by a call of \<open>fatal\<close>, and the fatal section is appended to the
  message of every channel: each message is what the \<open>try\<close> body left, followed by
  the fatal section.
\<close>

theorem main_fatal_exit_status:
  assumes "load env CONFIG_FILE = Inr (Some cfg)"
    and "build_notification_manager env cfg = Inr nm"
    and "build_executor env cfg nm = Inl (Exception_raised ex)
         \<or> (\<exists>executor. build_executor env cfg nm = Inr executor
               \<and> snd (Executor_start env executor nm) = Some (Exception_raised ex))"
    and "nm1 = (case build_executor env cfg nm of
                  Inl e \<Rightarrow> nm
                | Inr executor \<Rightarrow> fst (Executor_start env executor nm))"
  shows "completion (main env) = Returned
         \<and> exit_status (completion (main env)) = 0
         \<and> Log_error (exc_str ex) \<in> set (trace (main env))
         \<and> (nm \<noteq> None \<longrightarrow> Call_fatal (exc_str ex) \<in> set (trace (main env)))
         \<and> (\<forall>m1. nm \<noteq> None \<and> nm1 = Some m1 \<longrightarrow>
               (\<exists>m'. final_manager (main env) = Some m'
                  \<and> notifiers m' = notifiers m1
                  \<and> (\<forall>i. message_map m' i =
                        map_option (\<lambda>msg. msg @ [Fatal_section (exc_str ex)])
                          (message_map m1 i))))"
proof -
  from try_body_raised [OF assms(3,4)]
  obtain t2 where tb: "try_body env cfg nm = (t2, nm1, Some (Exception_raised ex))"
    by blast
  show ?thesis
    unfolding main_loaded [OF assms(1,2) tb]
    using try_body_calls [OF tb]
    by (cases nm)
      (auto simp: after_try_def flush_def handler_def message_map_send message_map_fatal
         notifiers_send_fatal)
qed

theorem main_fatal_exit_status_witness:
  "build_executor (test_env (Some (Exception_raised login_failure)) None) test_config
      (Some tg_manager) = Inl (Exception_raised login_failure)
   \<and> completion (main (test_env (Some (Exception_raised login_failure)) None)) = Returned
   \<and> exit_status (completion (main (test_env (Some (Exception_raised login_failure)) None)))
       = 0
   \<and> Log_error ''authentication failed for root@pam''
       \<in> set (trace (main (test_env (Some (Exception_raised login_failure)) None)))
   \<and> map_option (\<lambda>m. message_map m 0)
        (final_manager (main (test_env (Some (Exception_raised login_failure)) None)))
       = Some (Some [Run_header 5, Fatal_section ''authentication failed for root@pam''])"
proof -
  have msg: "map_option (\<lambda>m. message_map m 0)
        (final_manager (main (test_env (Some (Exception_raised login_failure)) None)))
       = Some (Some [Run_header 5, Fatal_section ''authentication failed for root@pam''])"
    by (simp add: test_env_fatal message_map_send message_map_fatal tg_manager_def)
  have str: "exc_str login_failure = ''authentication failed for root@pam''"
    by (simp add: login_failure_def)
  let ?env = "test_env (Some (Exception_raised login_failure)) None"
  have raised: "build_executor ?env test_config (Some tg_manager)
                  = Inl (Exception_raised login_failure)
         \<or> (\<exists>executor. build_executor ?env test_config (Some tg_manager) = Inr executor
               \<and> snd (Executor_start ?env executor (Some tg_manager))
                   = Some (Exception_raised login_failure))"
    by (simp add: test_env_build_executor_fails)
  have left: "Some tg_manager =
      (case build_executor ?env test_config (Some tg_manager) of
         Inl e \<Rightarrow> Some tg_manager
       | Inr executor \<Rightarrow> fst (Executor_start ?env executor (Some tg_manager)))"
    by (simp add: test_env_build_executor_fails)
  from main_fatal_exit_status [OF test_env_load test_env_manager raised left]
  have "completion (main ?env) = Returned
     \<and> exit_status (completion (main ?env)) = 0
     \<and> Log_error (exc_str login_failure) \<in> set (trace (main ?env))"
    by blast
  with msg str show ?thesis
    by (simp add: test_env_build_executor_fails)
qed

end
